theory Spec2Isabelle
  imports Complex_Main "HOL-Library.Sublist" "HOL-Library.Word"
begin

section \<open>Chart of Accounts view: data model\<close>

text \<open>
  The component \<^verbatim>\<open>ChartOfAccounts\<close> of
  \<^verbatim>\<open>src/frontend/src/components/banking/ChartOfAccounts.js\<close> keeps seven state
  variables, loads the accounts of the selected company from a service, and derives a
  filtered list and summary statistics on every render.

  Two operations of the language are parameters of the model, since their tables are not
  part of the component: \<^verbatim>\<open>String.prototype.toLowerCase\<close>, a function on strings, and
  the addition of two non-zero numbers, which rounds. Every theorem about all inputs holds
  for every value of these parameters.
\<close>

subsection \<open>Strings\<close>

text \<open>
  A string is a sequence of UTF-16 code units. \<open>utf16\<close> gives the string of a literal of
  the source, whose characters are all ASCII.
\<close>

type_synonym code_unit = "16 word"

type_synonym jsstring = "code_unit list"

definition utf16 :: "string \<Rightarrow> jsstring" where
  "utf16 s = map of_char s"

fun startsWith :: "jsstring \<Rightarrow> jsstring \<Rightarrow> bool" where
  "startsWith s [] = True"
| "startsWith [] (p # ps) = False"
| "startsWith (c # cs) (p # ps) = (c = p \<and> startsWith cs ps)"

text \<open>\<^verbatim>\<open>s.includes(sub)\<close>: some position of \<open>s\<close> starts an occurrence of \<open>sub\<close>.\<close>

fun includes_str :: "jsstring \<Rightarrow> jsstring \<Rightarrow> bool" where
  "includes_str [] sub = (sub = [])"
| "includes_str (c # cs) sub = (startsWith (c # cs) sub \<or> includes_str cs sub)"

subsection \<open>Values of a numeric field\<close>

text \<open>
  The \<^verbatim>\<open>balance\<close> of an account is a number, or it is missing (\<^verbatim>\<open>undefined\<close>),
  or \<^verbatim>\<open>null\<close>. \<^verbatim>\<open>NaN\<close> is what the addition of \<^verbatim>\<open>undefined\<close> gives. A number is
  a finite double, taken as the real number it stands for.
\<close>

datatype jsval = Undefined | Null | Num real | NaN

fun truthy :: "jsval \<Rightarrow> bool" where
  "truthy (Num r) = (r \<noteq> 0)"
| "truthy Undefined = False"
| "truthy Null = False"
| "truthy NaN = False"

text \<open>\<^verbatim>\<open>a || b\<close>\<close>

definition js_or :: "jsval \<Rightarrow> jsval \<Rightarrow> jsval" where
  "js_or a b = (if truthy a then a else b)"

text \<open>\<^verbatim>\<open>ToNumber\<close>; \<open>None\<close> stands for \<^verbatim>\<open>NaN\<close>.\<close>

fun toNumber :: "jsval \<Rightarrow> real option" where
  "toNumber (Num r) = Some r"
| "toNumber Null = Some 0"
| "toNumber Undefined = None"
| "toNumber NaN = None"

text \<open>
  The sum of two doubles is their exact sum, rounded to a double: for \<^verbatim>\<open>0.1 + 0.2\<close> it
  is not the exact sum. The parameter \<open>add\<close> stands for this rounded addition; the model
  does not compute it. Adding zero leaves a double as it is. A sum beyond the range of
  doubles is outside the model.
\<close>

definition number_plus :: "(real \<Rightarrow> real \<Rightarrow> real) \<Rightarrow> real \<Rightarrow> real \<Rightarrow> real" where
  "number_plus add x y = (if x = 0 then y else if y = 0 then x else add x y)"

text \<open>\<^verbatim>\<open>a + b\<close> on these values\<close>

definition js_plus :: "(real \<Rightarrow> real \<Rightarrow> real) \<Rightarrow> jsval \<Rightarrow> jsval \<Rightarrow> jsval" where
  "js_plus add a b =
     (case toNumber a of
        None \<Rightarrow> NaN
      | Some x \<Rightarrow> (case toNumber b of None \<Rightarrow> NaN | Some y \<Rightarrow> Num (number_plus add x y)))"

subsection \<open>Accounts and view state\<close>

record account =
  account_id :: jsstring
  name :: jsstring
  type :: jsstring
  number :: "jsstring option"
  balance :: jsval
  description :: "jsstring option"
  is_active :: bool

record view_state =
  searchTerm :: jsstring
  filterType :: jsstring
  showInactive :: bool
  accounts :: "account list"
  loading :: bool
  error :: "jsstring option"
  refreshing :: bool

text \<open>The initial values of the \<^verbatim>\<open>useState\<close> calls.\<close>

definition initial_state :: view_state where
  "initial_state =
     \<lparr>searchTerm = [], filterType = utf16 ''all'', showInactive = False, accounts = [],
      loading = True, error = None, refreshing = False\<rparr>"

section \<open>Derived data\<close>

subsection \<open>filteredAccounts\<close>

definition matchesSearch :: "(jsstring \<Rightarrow> jsstring) \<Rightarrow> jsstring \<Rightarrow> account \<Rightarrow> bool" where
  "matchesSearch toLowerCase st a =
     (st = [] \<or>
      includes_str (toLowerCase (name a)) (toLowerCase st) \<or>
      (case number a of
         None \<Rightarrow> False
       | Some n \<Rightarrow> n \<noteq> [] \<and> includes_str n st))"

definition matchesType :: "(jsstring \<Rightarrow> jsstring) \<Rightarrow> jsstring \<Rightarrow> account \<Rightarrow> bool" where
  "matchesType toLowerCase ft a =
     (ft = utf16 ''all'' \<or> toLowerCase (type a) = toLowerCase ft)"

definition matchesActive :: "bool \<Rightarrow> account \<Rightarrow> bool" where
  "matchesActive si a = (si \<or> is_active a)"

definition filteredAccounts :: "(jsstring \<Rightarrow> jsstring) \<Rightarrow> view_state \<Rightarrow> account list" where
  "filteredAccounts toLowerCase s =
     filter (\<lambda>a. matchesSearch toLowerCase (searchTerm s) a \<and>
                 matchesType toLowerCase (filterType s) a \<and>
                 matchesActive (showInactive s) a)
       (accounts s)"

subsection \<open>accountStats\<close>

record account_stats =
  bankAccounts :: nat
  totalBankBalance :: jsval
  totalAssets :: jsval
  totalLiabilities :: jsval
  totalAccounts :: nat

text \<open>
  \<^verbatim>\<open>xs.reduce((sum, account) => sum + (account.balance || 0), 0)\<close>: a fold from the
  left, starting at \<open>0\<close>.
\<close>

definition reduce_balance :: "(real \<Rightarrow> real \<Rightarrow> real) \<Rightarrow> account list \<Rightarrow> jsval" where
  "reduce_balance add xs =
     foldl (\<lambda>sum a. js_plus add sum (js_or (balance a) (Num 0))) (Num 0) xs"

definition accountStats :: "(real \<Rightarrow> real \<Rightarrow> real) \<Rightarrow> view_state \<Rightarrow> account_stats" where
  "accountStats add s =
     \<lparr>bankAccounts = length (filter (\<lambda>a. type a = utf16 ''Bank'') (accounts s)),
      totalBankBalance =
        reduce_balance add (filter (\<lambda>a. type a = utf16 ''Bank'') (accounts s)),
      totalAssets =
        reduce_balance add (filter (\<lambda>a. type a = utf16 ''Fixed Asset'') (accounts s)),
      totalLiabilities =
        reduce_balance add (filter (\<lambda>a. type a = utf16 ''Accounts Payable'') (accounts s)),
      totalAccounts = length (accounts s)\<rparr>"

section \<open>Loading accounts\<close>

text \<open>
  The service \<^verbatim>\<open>accountService.getAccounts\<close> is not part of the component: it is a
  parameter of the model. It settles with a response object, whose \<^verbatim>\<open>data\<close> field may be
  missing, or rejects with an error object, whose \<^verbatim>\<open>message\<close> may be missing.
\<close>

record company =
  company_id :: jsstring

record query_options =
  limit :: nat
  q_is_active :: "bool option"
  search :: "jsstring option"
  account_type :: "jsstring option"

record response =
  data :: "account list option"

record js_error =
  message :: "jsstring option"

datatype fetch_outcome = Resolved response | Rejected js_error

type_synonym request = "jsstring \<times> query_options"

type_synonym service = "jsstring \<Rightarrow> query_options \<Rightarrow> fetch_outcome"

text \<open>The truth value of \<^verbatim>\<open>currentCompany?.id\<close>.\<close>

definition has_company_id :: "company option \<Rightarrow> bool" where
  "has_company_id cc = (case cc of None \<Rightarrow> False | Some c \<Rightarrow> company_id c \<noteq> [])"

definition fetch_options :: "view_state \<Rightarrow> query_options" where
  "fetch_options s =
     \<lparr>limit = 1000,
      q_is_active = (if showInactive s then None else Some True),
      search = (if searchTerm s = [] then None else Some (searchTerm s)),
      account_type = (if filterType s = utf16 ''all'' then None else Some (filterType s))\<rparr>"

text \<open>
  Reading \<^verbatim>\<open>currentCompany.id\<close> of a missing company throws a \<^verbatim>\<open>TypeError\<close> while the
  arguments of the call are evaluated, inside the \<^verbatim>\<open>try\<close> block and before the service
  is called. Its message is the engine's.
\<close>

definition type_error_message :: jsstring where
  "type_error_message = utf16 ''Cannot read properties of null (reading 'id')''"

text \<open>
  The \<^verbatim>\<open>try\<close> block after the two setters: the value for \<^verbatim>\<open>setAccounts\<close>, or what
  was thrown, and the calls made to the service.
\<close>

definition try_block ::
    "service \<Rightarrow> company option \<Rightarrow> view_state \<Rightarrow> (js_error + account list) \<times> request list" where
  "try_block getAccounts currentCompany s =
     (case currentCompany of
        None \<Rightarrow> (Inl \<lparr>message = Some type_error_message\<rparr>, [])
      | Some c \<Rightarrow>
          (case getAccounts (company_id c) (fetch_options s) of
             Rejected err \<Rightarrow> (Inl err, [(company_id c, fetch_options s)])
           | Resolved accountsData \<Rightarrow>
               (Inr (case data accountsData of None \<Rightarrow> [] | Some d \<Rightarrow> d),
                [(company_id c, fetch_options s)])))"

definition error_text :: "js_error \<Rightarrow> jsstring" where
  "error_text err =
     (case message err of
        None \<Rightarrow> utf16 ''Failed to load accounts''
      | Some m \<Rightarrow> if m = [] then utf16 ''Failed to load accounts'' else m)"

definition loadAccounts ::
    "service \<Rightarrow> company option \<Rightarrow> view_state \<Rightarrow> view_state \<times> request list" where
  "loadAccounts getAccounts currentCompany s =
     (let s1 = s\<lparr>loading := True, error := None\<rparr>;
          (res, calls) = try_block getAccounts currentCompany s;
          s2 = (case res of
                  Inr d \<Rightarrow> s1\<lparr>accounts := d\<rparr>
                | Inl err \<Rightarrow> s1\<lparr>error := Some (error_text err)\<rparr>)
      in (s2\<lparr>loading := False\<rparr>, calls))"

definition handleRefresh ::
    "service \<Rightarrow> company option \<Rightarrow> view_state \<Rightarrow> view_state \<times> request list" where
  "handleRefresh getAccounts currentCompany s =
     (let (s', calls) = loadAccounts getAccounts currentCompany (s\<lparr>refreshing := True\<rparr>)
      in (s'\<lparr>refreshing := False\<rparr>, calls))"

text \<open>The effect on \<^verbatim>\<open>[currentCompany?.id]\<close>.\<close>

definition company_effect ::
    "service \<Rightarrow> company option \<Rightarrow> view_state \<Rightarrow> view_state \<times> request list" where
  "company_effect getAccounts currentCompany s =
     (if has_company_id currentCompany then loadAccounts getAccounts currentCompany s
      else (s, []))"

section \<open>The debounced reload\<close>

text \<open>
  Time is a number of milliseconds. A pending timer is a handle, the time it is due and
  the render whose \<^verbatim>\<open>loadAccounts\<close> its callback calls: the company and the state of
  that render. \<open>cleanup\<close> is the handle that the function returned by the last run of the
  effect clears, \<open>fetch_log\<close> the calls made to the service by timer callbacks, each with
  its time. A callback runs at the time its timer is due.
\<close>

type_synonym closure = "company option \<times> view_state"

record scheduler =
  next_handle :: nat
  pending :: "(nat \<times> nat \<times> closure) list"
  cleanup :: "nat option"
  fetch_log :: "(nat \<times> request) list"

definition setTimeout :: "closure \<Rightarrow> nat \<Rightarrow> nat \<Rightarrow> scheduler \<Rightarrow> nat \<times> scheduler" where
  "setTimeout cb delay now S =
     (next_handle S,
      S\<lparr>next_handle := Suc (next_handle S),
        pending := pending S @ [(next_handle S, now + delay, cb)]\<rparr>)"

definition clearTimeout :: "nat \<Rightarrow> scheduler \<Rightarrow> scheduler" where
  "clearTimeout h S = S\<lparr>pending := filter (\<lambda>(h', d, cb). h' \<noteq> h) (pending S)\<rparr>"

text \<open>The effect on \<^verbatim>\<open>[searchTerm, filterType, showInactive]\<close>, run at time \<open>now\<close>.\<close>

definition debounce_effect ::
    "company option \<Rightarrow> view_state \<Rightarrow> nat \<Rightarrow> scheduler \<Rightarrow> scheduler" where
  "debounce_effect currentCompany s now S =
     (if has_company_id currentCompany
      then (let (delayedSearch, S') = setTimeout (currentCompany, s) 500 now S
            in S'\<lparr>cleanup := Some delayedSearch\<rparr>)
      else S\<lparr>cleanup := None\<rparr>)"

definition run_cleanup :: "scheduler \<Rightarrow> scheduler" where
  "run_cleanup S = (case cleanup S of None \<Rightarrow> S | Some h \<Rightarrow> clearTimeout h S)"

text \<open>The callbacks of the timers due by \<open>now\<close> run: each calls its \<^verbatim>\<open>loadAccounts\<close>.\<close>

definition fire_due :: "service \<Rightarrow> nat \<Rightarrow> scheduler \<Rightarrow> scheduler" where
  "fire_due getAccounts now S =
     S\<lparr>pending := filter (\<lambda>(h, d, cb). now < d) (pending S),
       fetch_log := fetch_log S @
         concat (map (\<lambda>(h, d, (cc, s)). map (Pair d) (snd (loadAccounts getAccounts cc s)))
                   (filter (\<lambda>(h, d, cb). d \<le> now) (pending S)))\<rparr>"

text \<open>
  A render at time \<open>t\<close> in which one of the three dependencies has changed: the timers due
  have run, the cleanup of the previous run of the effect runs, then the effect.
\<close>

definition filter_change ::
    "service \<Rightarrow> company option \<Rightarrow> nat \<Rightarrow> view_state \<Rightarrow> scheduler \<Rightarrow> scheduler" where
  "filter_change getAccounts currentCompany t s S =
     debounce_effect currentCompany s t (run_cleanup (fire_due getAccounts t S))"

fun run_changes ::
    "service \<Rightarrow> company option \<Rightarrow> (nat \<times> view_state) list \<Rightarrow> scheduler \<Rightarrow> scheduler" where
  "run_changes getAccounts currentCompany [] S = S"
| "run_changes getAccounts currentCompany ((t, s) # cs) S =
     run_changes getAccounts currentCompany cs (filter_change getAccounts currentCompany t s S)"

text \<open>The first render, at time \<open>t\<close>: no timer yet, and the effect runs.\<close>

definition mount :: "company option \<Rightarrow> nat \<Rightarrow> view_state \<Rightarrow> scheduler" where
  "mount currentCompany t s =
     debounce_effect currentCompany s t
       \<lparr>next_handle = 0, pending = [], cleanup = None, fetch_log = []\<rparr>"

text \<open>Every pending timer is the one that the cleanup clears.\<close>

definition tracked :: "scheduler \<Rightarrow> bool" where
  "tracked S = list_all (\<lambda>(h, d, cb). cleanup S = Some h) (pending S)"

section \<open>Rendering\<close>

text \<open>
  The four \<^verbatim>\<open>return\<close> statements of the component, in their order. The last one shows
  the filtered accounts and the statistics.
\<close>

datatype view =
    LoadingView
  | ErrorView jsstring
  | SelectCompanyView
  | AccountsView "account list" account_stats bool

definition render ::
    "(jsstring \<Rightarrow> jsstring) \<Rightarrow> (real \<Rightarrow> real \<Rightarrow> real) \<Rightarrow> company option \<Rightarrow> view_state \<Rightarrow> view" where
  "render toLowerCase add currentCompany s =
     (if loading s then LoadingView
      else (case (case error s of
                    None \<Rightarrow> None
                  | Some e \<Rightarrow> if e = [] then None else Some e) of
              Some e \<Rightarrow> ErrorView e
            | None \<Rightarrow>
                (case currentCompany of
                   None \<Rightarrow> SelectCompanyView
                 | Some c \<Rightarrow>
                     AccountsView (filteredAccounts toLowerCase s) (accountStats add s)
                       (refreshing s))))"

section \<open>The specification's notions\<close>




definition spec_amount :: "account \<Rightarrow> real" where
  "spec_amount a = (case balance a of Num r \<Rightarrow> r | _ \<Rightarrow> 0)"

definition spec_sum :: "(real \<Rightarrow> real \<Rightarrow> real) \<Rightarrow> real list \<Rightarrow> real" where
  "spec_sum add bs = foldl (number_plus add) 0 bs"

section \<open>Example data\<close>

text \<open>
  What \<^verbatim>\<open>toLowerCase\<close> gives on strings made of ASCII letters, digits and spaces and of
  the Greek letters from alpha to omega: capitals become small letters, and a capital
  sigma becomes the final small sigma when a letter stands before it and none after it.
  Only the examples use it.
\<close>

definition lower_unit :: "code_unit \<Rightarrow> code_unit" where
  "lower_unit c =
     (if (0x41 \<le> c \<and> c \<le> 0x5A) \<or> (0x391 \<le> c \<and> c \<le> 0x3A9 \<and> c \<noteq> 0x3A2)
      then c + 0x20 else c)"

definition cased :: "code_unit \<Rightarrow> bool" where
  "cased c =
     ((0x41 \<le> c \<and> c \<le> 0x5A) \<or> (0x61 \<le> c \<and> c \<le> 0x7A) \<or>
      (0x391 \<le> c \<and> c \<le> 0x3A9 \<and> c \<noteq> 0x3A2) \<or> (0x3B1 \<le> c \<and> c \<le> 0x3C9))"

fun lower_from :: "bool \<Rightarrow> jsstring \<Rightarrow> jsstring" where
  "lower_from prev [] = []"
| "lower_from prev [c] = [if c = 0x3A3 \<and> prev then 0x3C2 else lower_unit c]"
| "lower_from prev (c # d # cs) =
     (if c = 0x3A3 \<and> prev \<and> \<not> cased d then 0x3C2 else lower_unit c)
       # lower_from (cased c) (d # cs)"

definition lower_basic :: "jsstring \<Rightarrow> jsstring" where
  "lower_basic s = lower_from False s"

definition example_company :: company where
  "example_company = \<lparr>company_id = utf16 ''c1''\<rparr>"

definition bank_account :: account where
  "bank_account =
     \<lparr>account_id = utf16 ''1'', name = utf16 ''Checking'', type = utf16 ''Bank'',
      number = Some (utf16 ''1000''), balance = Num 100, description = None,
      is_active = True\<rparr>"

definition fixed_asset_account :: account where
  "fixed_asset_account =
     \<lparr>account_id = utf16 ''2'', name = utf16 ''Equipment'', type = utf16 ''Fixed Asset'',
      number = None, balance = Num 500, description = None, is_active = False\<rparr>"

definition no_balance_account :: account where
  "no_balance_account =
     \<lparr>account_id = utf16 ''3'', name = utf16 ''Savings'', type = utf16 ''Bank'',
      number = None, balance = Undefined, description = None, is_active = True\<rparr>"

definition lower_case_bank_account :: account where
  "lower_case_bank_account =
     \<lparr>account_id = utf16 ''4'', name = utf16 ''Payroll'', type = utf16 ''bank'',
      number = None, balance = Num 100, description = None, is_active = True\<rparr>"


definition loaded :: "account list \<Rightarrow> view_state" where
  "loaded xs = initial_state\<lparr>accounts := xs, loading := False\<rparr>"

definition searching :: "string \<Rightarrow> view_state" where
  "searching st = initial_state\<lparr>searchTerm := utf16 st, loading := False\<rparr>"


definition empty_service :: service where
  "empty_service i q = Resolved \<lparr>data = Some []\<rparr>"

definition no_data_service :: service where
  "no_data_service i q = Resolved \<lparr>data = None\<rparr>"

definition timeout_service :: service where
  "timeout_service i q = Rejected \<lparr>message = Some (utf16 ''timeout'')\<rparr>"

section \<open>Strings: literals and \<^verbatim>\<open>includes\<close>\<close>

lemma unat_of_char: "unat (of_char c :: 16 word) = of_char c"
proof -
  have "(of_char c :: nat) mod 256 = of_char c"
    by (rule of_char_mod_256)
  then have "(of_char c :: nat) < 256"
    by (metis mod_less_divisor zero_less_numeral)
  then have "(of_char c :: nat) < 65536" by linarith
  then have lt: "(of_char c :: nat) < 2 ^ 16" by simp
  have "(of_char c :: 16 word) = of_nat (of_char c)"
    by (simp only: of_nat_of_char)
  then have "unat (of_char c :: 16 word) = of_char c mod 2 ^ 16"
    by (simp only: unat_of_nat len_of_numeral_defs) simp
  with lt show ?thesis by simp
qed

lemma of_char_word_inj: "(of_char c :: 16 word) = of_char d \<longleftrightarrow> c = d"
proof
  assume "(of_char c :: 16 word) = of_char d"
  then have "unat (of_char c :: 16 word) = unat (of_char d :: 16 word)" by simp
  then have "(of_char c :: nat) = of_char d" by (simp only: unat_of_char)
  then show "c = d" by simp
qed simp

text \<open>Different literals are different strings.\<close>

lemma utf16_eq_iff [simp]: "utf16 x = utf16 y \<longleftrightarrow> x = y"
  unfolding utf16_def
  by (induction x arbitrary: y) (auto simp: of_char_word_inj Cons_eq_map_conv map_eq_Cons_conv)

lemma utf16_Nil [simp]: "utf16 s = [] \<longleftrightarrow> s = []" "[] = utf16 s \<longleftrightarrow> s = []"
  by (auto simp: utf16_def)



text \<open>
  Where lower case is taken unit by unit, the lower-case term is a part of the lower-case
  name exactly when the term equals a part of the name up to letter case.
\<close>

lemma substring_unit_by_unit:
  "(\<exists>ps ss. map f x = ps @ map f st @ ss) =
   (\<exists>ps u ss. x = ps @ u @ ss \<and> map f u = map f st)"
proof
  assume "\<exists>ps u ss. x = ps @ u @ ss \<and> map f u = map f st"
  then obtain ps u ss where "x = ps @ u @ ss" "map f u = map f st"
    by blast
  then have "map f x = map f ps @ map f st @ map f ss"
    by simp
  then show "\<exists>ps ss. map f x = ps @ map f st @ ss"
    by blast
next
  assume "\<exists>ps ss. map f x = ps @ map f st @ ss"
  then obtain p q where "map f x = p @ map f st @ q"
    by blast
  then have "\<exists>ps r. x = ps @ r \<and> p = map f ps \<and> map f st @ q = map f r"
    by (simp only: map_eq_append_conv)
  then obtain ps r where x: "x = ps @ r" and r: "map f r = map f st @ q"
    by metis
  from r have "\<exists>u ss. r = u @ ss \<and> map f st = map f u \<and> q = map f ss"
    by (simp only: map_eq_append_conv)
  then obtain u ss where "r = u @ ss" "map f u = map f st"
    by metis
  with x show "\<exists>ps u ss. x = ps @ u @ ss \<and> map f u = map f st"
    by blast
qed

lemma lower_basic_ascii: "lower_basic (utf16 ''Fixed Asset'') = utf16 ''fixed asset''"
  by (simp add: lower_basic_def lower_unit_def cased_def utf16_def)


section \<open>The filter\<close>






text \<open>
  C7. For a fixed list of accounts, search term and type filter, the accounts shown with
  \<^verbatim>\<open>showInactive = false\<close> are among those shown with \<^verbatim>\<open>showInactive = true\<close>, and in
  the same order.
\<close>

theorem showInactive_grows:
  "set (filteredAccounts toLowerCase (s\<lparr>showInactive := False\<rparr>)) \<subseteq>
     set (filteredAccounts toLowerCase (s\<lparr>showInactive := True\<rparr>))
   \<and> subseq (filteredAccounts toLowerCase (s\<lparr>showInactive := False\<rparr>))
       (filteredAccounts toLowerCase (s\<lparr>showInactive := True\<rparr>))"
proof -
  have "filteredAccounts toLowerCase (s\<lparr>showInactive := False\<rparr>) =
        filter is_active (filteredAccounts toLowerCase (s\<lparr>showInactive := True\<rparr>))"
    unfolding filteredAccounts_def
    by (auto simp: matchesActive_def intro!: filter_cong)
  then show ?thesis by simp
qed

section \<open>The statistics\<close>

lemma number_plus_zero [simp]: "number_plus add x 0 = x" "number_plus add 0 y = y"
  by (simp_all add: number_plus_def)

lemma foldl_balance:
  "foldl (\<lambda>sum a. js_plus add sum (js_or (balance a) (Num 0))) (Num r) xs =
   Num (foldl (number_plus add) r (map spec_amount xs))"
  by (induction xs arbitrary: r)
     (auto simp: js_plus_def js_or_def spec_amount_def split: jsval.splits)

lemma reduce_balance_sum: "reduce_balance add xs = Num (spec_sum add (map spec_amount xs))"
  by (simp add: reduce_balance_def spec_sum_def foldl_balance)

lemma spec_amount_falsy: "\<not> truthy (balance a) \<Longrightarrow> spec_amount a = 0"
  by (cases "balance a") (simp_all add: spec_amount_def)

lemma spec_sum_skip_zero: "spec_sum add (xs @ 0 # ys) = spec_sum add (xs @ ys)"
  by (simp add: spec_sum_def)

text \<open>With an addition that does not round, the sum is the sum of the numbers.\<close>

lemma spec_sum_exact: "spec_sum (+) bs = sum_list bs"
proof -
  have "foldl (number_plus (+)) r bs = r + sum_list bs" for r
    by (induction bs arbitrary: r) (simp_all add: number_plus_def)
  from this [of 0] show ?thesis by (simp add: spec_sum_def)
qed

text \<open>What the guard \<^verbatim>\<open>|| 0\<close> avoids: adding a missing balance gives \<^verbatim>\<open>NaN\<close>.\<close>

lemma js_plus_Undefined: "js_plus add v Undefined = NaN"
  by (simp add: js_plus_def split: option.split)

text \<open>
  C5. \<^verbatim>\<open>accountStats.totalAccounts\<close> is the length of the loaded list of accounts,
  whatever the search term, the type filter and the inactive toggle are.
\<close>

theorem totalAccounts_length:
  "totalAccounts (accountStats add s) = length (accounts s)
   \<and> totalAccounts
       (accountStats add (s\<lparr>searchTerm := st, filterType := ft, showInactive := si\<rparr>)) =
       length (accounts s)"
  by (simp add: accountStats_def)


text \<open>
  C9. Each of the three sums of \<^verbatim>\<open>accountStats\<close> is a number for every list of
  accounts, also when balances are missing, \<^verbatim>\<open>null\<close>, zero or \<^verbatim>\<open>NaN\<close>; and an account
  with such a balance adds nothing: the sums are those of the list without it.
\<close>

theorem accountStats_missing_balance:
  "(\<exists>r. totalBankBalance (accountStats add s) = Num r)
   \<and> (\<exists>r. totalAssets (accountStats add s) = Num r)
   \<and> (\<exists>r. totalLiabilities (accountStats add s) = Num r)
   \<and> (\<not> truthy (balance a) \<longrightarrow>
        totalBankBalance (accountStats add (s\<lparr>accounts := xs @ a # ys\<rparr>)) =
          totalBankBalance (accountStats add (s\<lparr>accounts := xs @ ys\<rparr>))
        \<and> totalAssets (accountStats add (s\<lparr>accounts := xs @ a # ys\<rparr>)) =
          totalAssets (accountStats add (s\<lparr>accounts := xs @ ys\<rparr>))
        \<and> totalLiabilities (accountStats add (s\<lparr>accounts := xs @ a # ys\<rparr>)) =
          totalLiabilities (accountStats add (s\<lparr>accounts := xs @ ys\<rparr>)))"
  by (simp add: accountStats_def reduce_balance_sum spec_amount_falsy spec_sum_skip_zero)

theorem accountStats_missing_balance_witness:
  "\<forall>add. \<not> truthy (balance no_balance_account)
   \<and> totalBankBalance (accountStats add (loaded [bank_account, no_balance_account])) = Num 100
   \<and> totalBankBalance (accountStats add (loaded [bank_account])) = Num 100"
proof
  fix add :: "real \<Rightarrow> real \<Rightarrow> real"
  show "\<not> truthy (balance no_balance_account)
   \<and> totalBankBalance (accountStats add (loaded [bank_account, no_balance_account])) = Num 100
   \<and> totalBankBalance (accountStats add (loaded [bank_account])) = Num 100"
    using accountStats_missing_balance
      [of add "loaded []" no_balance_account "[bank_account]" "[]"]
    by (simp add: loaded_def initial_state_def no_balance_account_def bank_account_def
          accountStats_def reduce_balance_def js_plus_def js_or_def)
qed

text \<open>
  C10. The statistics compare the type with \<^verbatim>\<open>"Bank"\<close> exactly, the filter compares
  types up to letter case: an account of type \<^verbatim>\<open>"bank"\<close> and balance 100 is shown under
  the type filter \<^verbatim>\<open>"bank"\<close>, and is counted neither in \<^verbatim>\<open>bankAccounts\<close> nor in
  \<^verbatim>\<open>totalBankBalance\<close>.
\<close>

theorem type_case_mismatch:
  "\<exists>a s. lower_basic (type a) = lower_basic (utf16 ''Bank'') \<and> type a \<noteq> utf16 ''Bank''
     \<and> balance a = Num 100
     \<and> filterType s = utf16 ''bank'' \<and> accounts s = [a]
     \<and> (\<forall>toLowerCase add.
          a \<in> set (filteredAccounts toLowerCase s)
          \<and> bankAccounts (accountStats add s) = 0
          \<and> totalBankBalance (accountStats add s) = Num 0)"
proof -
  let ?a = lower_case_bank_account
  let ?s = "(loaded [?a])\<lparr>filterType := utf16 ''bank''\<rparr>"
  have "lower_basic (type ?a) = lower_basic (utf16 ''Bank'')"
    by (simp add: lower_case_bank_account_def lower_basic_def lower_unit_def cased_def
          utf16_def)
  moreover have "type ?a \<noteq> utf16 ''Bank'' \<and> balance ?a = Num 100
     \<and> filterType ?s = utf16 ''bank'' \<and> accounts ?s = [?a]
     \<and> (\<forall>toLowerCase add.
          ?a \<in> set (filteredAccounts toLowerCase ?s)
          \<and> bankAccounts (accountStats add ?s) = 0
          \<and> totalBankBalance (accountStats add ?s) = Num 0)"
    by (simp add: loaded_def initial_state_def lower_case_bank_account_def
          filteredAccounts_def matchesSearch_def matchesType_def matchesActive_def
          accountStats_def reduce_balance_def)
  ultimately show ?thesis by blast
qed

section \<open>Loading\<close>

lemma snd_loadAccounts:
  "snd (loadAccounts getAccounts (Some c) s) = [(company_id c, fetch_options s)]"
  by (simp add: loadAccounts_def try_block_def split: fetch_outcome.split)

lemma snd_loadAccounts_None: "snd (loadAccounts getAccounts None s) = []"
  by (simp add: loadAccounts_def try_block_def)

text \<open>
  C2. When the call to the service made by \<^verbatim>\<open>loadAccounts\<close> is rejected, \<^verbatim>\<open>error\<close>
  becomes the message of the rejection, or \<^verbatim>\<open>"Failed to load accounts"\<close> when the
  rejection has no message or an empty one; \<^verbatim>\<open>loading\<close> becomes false; \<^verbatim>\<open>accounts\<close>
  is what it was. A rejection with the message \<^verbatim>\<open>"timeout"\<close> gives the error
  \<^verbatim>\<open>"timeout"\<close>.
\<close>

theorem loadAccounts_failure:
  assumes "getAccounts (company_id c) (fetch_options s) = Rejected err"
  shows "error (fst (loadAccounts getAccounts (Some c) s)) =
           Some (case message err of
                   None \<Rightarrow> utf16 ''Failed to load accounts''
                 | Some m \<Rightarrow> if m = [] then utf16 ''Failed to load accounts'' else m)
       \<and> (message err = Some (utf16 ''timeout'') \<longrightarrow>
            error (fst (loadAccounts getAccounts (Some c) s)) = Some (utf16 ''timeout''))
       \<and> loading (fst (loadAccounts getAccounts (Some c) s)) = False
       \<and> accounts (fst (loadAccounts getAccounts (Some c) s)) = accounts s"
  using assms by (simp add: loadAccounts_def try_block_def error_text_def)

theorem loadAccounts_failure_witness:
  "timeout_service (company_id example_company) (fetch_options (loaded [bank_account])) =
     Rejected \<lparr>message = Some (utf16 ''timeout'')\<rparr>
   \<and> error (fst (loadAccounts timeout_service (Some example_company) (loaded [bank_account]))) =
       Some (utf16 ''timeout'')
   \<and> loading (fst (loadAccounts timeout_service (Some example_company) (loaded [bank_account]))) =
       False
   \<and> accounts (fst (loadAccounts timeout_service (Some example_company) (loaded [bank_account]))) =
       [bank_account]"
  using loadAccounts_failure
    [of timeout_service example_company "loaded [bank_account]"
       "\<lparr>message = Some (utf16 ''timeout'')\<rparr>"]
  by (simp add: timeout_service_def loaded_def)

text \<open>
  C8. When the call to the service made by \<^verbatim>\<open>loadAccounts\<close> settles with a response,
  \<^verbatim>\<open>accounts\<close> becomes the \<^verbatim>\<open>data\<close> of the response, or the empty list when the
  response has no \<^verbatim>\<open>data\<close>; and however \<^verbatim>\<open>loadAccounts\<close> ends, with or without a
  company, \<^verbatim>\<open>loading\<close> is false afterwards.
\<close>

theorem loadAccounts_success:
  "(getAccounts (company_id c) (fetch_options s) = Resolved r \<longrightarrow>
      accounts (fst (loadAccounts getAccounts (Some c) s)) =
        (case data r of None \<Rightarrow> [] | Some d \<Rightarrow> d))
   \<and> loading (fst (loadAccounts getAccounts currentCompany s)) = False"
  by (cases currentCompany)
     (simp_all add: loadAccounts_def try_block_def
        split: fetch_outcome.split sum.split prod.split)

theorem loadAccounts_success_witness:
  "no_data_service (company_id example_company) (fetch_options (loaded [bank_account])) =
     Resolved \<lparr>data = None\<rparr>
   \<and> accounts (fst (loadAccounts no_data_service (Some example_company) (loaded [bank_account]))) =
       []
   \<and> loading (fst (loadAccounts no_data_service (Some example_company) (loaded [bank_account]))) =
       False"
  using loadAccounts_success
    [where getAccounts = no_data_service and c = example_company
       and s = "loaded [bank_account]" and r = "\<lparr>data = None\<rparr>"
       and currentCompany = "Some example_company"]
  by (simp add: no_data_service_def)

section \<open>Debouncing\<close>

lemma cleared_when_tracked:
  "tracked S \<Longrightarrow> pending (run_cleanup (fire_due getAccounts t S)) = []"
proof (cases "cleanup S")
  case None
  assume "tracked S"
  with None have "pending S = []"
    by (cases "pending S") (auto simp: tracked_def)
  then show ?thesis
    by (simp add: run_cleanup_def fire_due_def None)
next
  case (Some h)
  assume "tracked S"
  then have "\<forall>x \<in> set (pending S). fst x = h"
    by (auto simp: tracked_def list_all_iff Some)
  then have "filter (\<lambda>(h', d, cb). h' \<noteq> h)
               (filter (\<lambda>(h, d, cb). t < d) (pending S)) = []"
    by (auto simp: filter_empty_conv)
  then show ?thesis
    by (simp add: run_cleanup_def fire_due_def clearTimeout_def Some)
qed

lemma fetch_log_run_cleanup: "fetch_log (run_cleanup S) = fetch_log S"
  by (simp add: run_cleanup_def clearTimeout_def split: option.split)

lemma next_handle_run_cleanup: "next_handle (run_cleanup S) = next_handle S"
  by (simp add: run_cleanup_def clearTimeout_def split: option.split)

lemma next_handle_fire_due: "next_handle (fire_due getAccounts t S) = next_handle S"
  by (simp add: fire_due_def)

text \<open>
  With a company selected, a change leaves one timer, due 500 ms later, whatever was
  pending before.
\<close>

lemma filter_change_selected:
  assumes "has_company_id cc" "tracked S"
  shows "pending (filter_change getAccounts cc t s S) = [(next_handle S, t + 500, (cc, s))]"
    and "cleanup (filter_change getAccounts cc t s S) = Some (next_handle S)"
    and "fetch_log (filter_change getAccounts cc t s S) = fetch_log (fire_due getAccounts t S)"
    and "next_handle (filter_change getAccounts cc t s S) = Suc (next_handle S)"
  using assms cleared_when_tracked [of S getAccounts t]
  by (simp_all add: filter_change_def debounce_effect_def setTimeout_def
        fetch_log_run_cleanup next_handle_run_cleanup next_handle_fire_due)

text \<open>Without one, a change leaves no timer.\<close>

lemma filter_change_unselected:
  assumes "\<not> has_company_id cc" "tracked S"
  shows "pending (filter_change getAccounts cc t s S) = []"
    and "cleanup (filter_change getAccounts cc t s S) = None"
    and "fetch_log (filter_change getAccounts cc t s S) = fetch_log (fire_due getAccounts t S)"
  using assms cleared_when_tracked [of S getAccounts t]
  by (simp_all add: filter_change_def debounce_effect_def fetch_log_run_cleanup)

text \<open>\<open>tracked\<close> holds after the first render and after every change.\<close>

lemma tracked_mount: "tracked (mount cc t s)"
  by (simp add: tracked_def mount_def debounce_effect_def setTimeout_def)

lemma tracked_filter_change: "tracked S \<Longrightarrow> tracked (filter_change getAccounts cc t s S)"
  by (cases "has_company_id cc")
     (simp_all add: tracked_def filter_change_selected filter_change_unselected)

lemma tracked_run_changes: "tracked S \<Longrightarrow> tracked (run_changes getAccounts cc cs S)"
  by (induction cs arbitrary: S) (auto simp: tracked_filter_change)

lemma fire_due_early:
  "pending S = [(h, d, cl)] \<Longrightarrow> t < d \<Longrightarrow> fetch_log (fire_due getAccounts t S) = fetch_log S"
  by (simp add: fire_due_def)

lemma fire_due_late:
  "pending S = [(h, d, (Some c, s))] \<Longrightarrow> d \<le> t \<Longrightarrow>
   fetch_log (fire_due getAccounts t S) = fetch_log S @ [(d, (company_id c, fetch_options s))]"
  by (simp add: fire_due_def snd_loadAccounts)

lemma fire_due_none: "pending S = [] \<Longrightarrow> fire_due getAccounts t S = S"
  by (simp add: fire_due_def)

text \<open>Without a company, no timer is ever set and no timer callback calls the service.\<close>

lemma no_company_run_changes:
  "pending S = [] \<Longrightarrow>
   pending (run_changes getAccounts None cs S) = [] \<and>
   fetch_log (run_changes getAccounts None cs S) = fetch_log S"
proof (induction cs arbitrary: S)
  case Nil
  then show ?case by simp
next
  case (Cons x cs)
  obtain t s where x: "x = (t, s)" by (cases x)
  have "tracked S" using Cons.prems by (simp add: tracked_def)
  then have "pending (filter_change getAccounts None t s S) = []"
    and "fetch_log (filter_change getAccounts None t s S) = fetch_log S"
    using Cons.prems
    by (simp_all add: filter_change_unselected has_company_id_def fire_due_none)
  with Cons.IH [of "filter_change getAccounts None t s S"] show ?case
    by (simp add: x)
qed

text \<open>
  C3. While a company is selected (without one the effect sets no timer, and the
  component shows no filter control), a change of the search term, the type filter or the
  inactive toggle leaves exactly one timer pending, due 500 ms after the change, whatever
  timer was pending before; so three changes, each less than 500 ms after the one before,
  add exactly one call to the service to those made before the first change: it is made
  500 ms after the last change, with the filters of the last change.
\<close>

theorem debounce_one_fetch:
  assumes sel: "company_id c \<noteq> []" and tr: "tracked S"
    and "t1 \<le> t2" "t2 < t1 + 500" "t2 \<le> t3" "t3 < t2 + 500" "t3 + 500 \<le> T"
  shows "pending (filter_change getAccounts (Some c) t1 s1 S) =
           [(next_handle S, t1 + 500, (Some c, s1))]
    \<and> fetch_log (fire_due getAccounts T
         (run_changes getAccounts (Some c) [(t1, s1), (t2, s2), (t3, s3)] S)) =
       fetch_log (fire_due getAccounts t1 S) @
         [(t3 + 500, (company_id c, fetch_options s3))]"
proof -
  let ?cc = "Some c"
  have hc: "has_company_id ?cc" using sel by (simp add: has_company_id_def)
  define A where "A = filter_change getAccounts ?cc t1 s1 S"
  define B where "B = filter_change getAccounts ?cc t2 s2 A"
  define C where "C = filter_change getAccounts ?cc t3 s3 B"
  have trA: "tracked A" unfolding A_def using tr by (rule tracked_filter_change)
  have trB: "tracked B" unfolding B_def using trA by (rule tracked_filter_change)
  have pA: "pending A = [(next_handle S, t1 + 500, (?cc, s1))]"
    and lA: "fetch_log A = fetch_log (fire_due getAccounts t1 S)"
    unfolding A_def using hc tr by (simp_all add: filter_change_selected)
  have pB: "pending B = [(next_handle A, t2 + 500, (?cc, s2))]"
    and lB: "fetch_log B = fetch_log (fire_due getAccounts t2 A)"
    unfolding B_def using hc trA by (simp_all add: filter_change_selected)
  have pC: "pending C = [(next_handle B, t3 + 500, (?cc, s3))]"
    and lC: "fetch_log C = fetch_log (fire_due getAccounts t3 B)"
    unfolding C_def using hc trB by (simp_all add: filter_change_selected)
  have "fetch_log (fire_due getAccounts t2 A) = fetch_log A"
    using pA \<open>t2 < t1 + 500\<close> by (rule fire_due_early)
  moreover have "fetch_log (fire_due getAccounts t3 B) = fetch_log B"
    using pB \<open>t3 < t2 + 500\<close> by (rule fire_due_early)
  moreover have "fetch_log (fire_due getAccounts T C) =
      fetch_log C @ [(t3 + 500, (company_id c, fetch_options s3))]"
    using pC \<open>t3 + 500 \<le> T\<close> by (rule fire_due_late)
  ultimately have "fetch_log (fire_due getAccounts T C) =
      fetch_log (fire_due getAccounts t1 S) @ [(t3 + 500, (company_id c, fetch_options s3))]"
    using lA lB lC by simp
  moreover have "run_changes getAccounts ?cc [(t1, s1), (t2, s2), (t3, s3)] S = C"
    by (simp add: A_def B_def C_def)
  ultimately show ?thesis using pA by (simp add: A_def)
qed

theorem debounce_one_fetch_witness:
  "company_id example_company \<noteq> []
   \<and> tracked (mount (Some example_company) 0 initial_state)
   \<and> fetch_log (fire_due empty_service 5000
       (run_changes empty_service (Some example_company)
          [(1000, searching ''a''), (1200, searching ''ab''), (1500, searching ''abc'')]
          (mount (Some example_company) 0 initial_state))) =
     [(500, (company_id example_company, fetch_options initial_state)),
      (2000, (company_id example_company, fetch_options (searching ''abc'')))]"
proof -
  have h: "company_id example_company \<noteq> []"
    by (simp add: example_company_def)
  have first: "fetch_log (fire_due empty_service 1000
                 (mount (Some example_company) 0 initial_state)) =
               [(500, (company_id example_company, fetch_options initial_state))]"
    by (simp add: mount_def debounce_effect_def has_company_id_def example_company_def
          setTimeout_def fire_due_def snd_loadAccounts)
  have "fetch_log (fire_due empty_service 5000
       (run_changes empty_service (Some example_company)
          [(1000, searching ''a''), (1200, searching ''ab''), (1500, searching ''abc'')]
          (mount (Some example_company) 0 initial_state))) =
     fetch_log (fire_due empty_service 1000 (mount (Some example_company) 0 initial_state)) @
       [(1500 + 500, (company_id example_company, fetch_options (searching ''abc'')))]"
    using debounce_one_fetch
      [where c = example_company and S = "mount (Some example_company) 0 initial_state"
         and ?t1.0 = 1000 and ?t2.0 = 1200 and ?t3.0 = 1500 and T = 5000
         and getAccounts = empty_service and ?s1.0 = "searching ''a''"
         and ?s2.0 = "searching ''ab''" and ?s3.0 = "searching ''abc''",
       OF h tracked_mount]
    by simp
  with first h show ?thesis
    by (simp add: tracked_mount)
qed

section \<open>No company selected\<close>

text \<open>
  Once loading has ended without an error, the component shows the request to select a
  company; with a company it shows the accounts, so the filter controls are shown only
  while a company is selected.
\<close>

lemma render_no_company:
  "render toLowerCase add None s = SelectCompanyView \<longleftrightarrow>
     \<not> loading s \<and> (error s = None \<or> error s = Some [])"
  by (simp add: render_def split: option.split)

lemma render_accounts_has_company:
  "render toLowerCase add cc s = AccountsView xs st rf \<Longrightarrow> cc \<noteq> None"
  by (auto simp: render_def split: if_splits option.splits)

text \<open>
  C4. With no company selected no call is made to the service: not by the effect on the
  company, not by a timer set without a company, not by the refresh handler. But a
  component first rendered without a company does not show the request to select one:
  \<^verbatim>\<open>loading\<close> starts as true, only \<^verbatim>\<open>loadAccounts\<close> sets it to false, neither effect
  calls \<^verbatim>\<open>loadAccounts\<close> without a company, and the loading indicator is returned before
  the company is looked at. So the state stays the initial one and the view is the
  loading indicator.
\<close>

theorem no_company_first_render:
  "company_effect getAccounts None initial_state = (initial_state, [])
   \<and> pending (run_changes getAccounts None cs (mount None t initial_state)) = []
   \<and> fetch_log (run_changes getAccounts None cs (mount None t initial_state)) = []
   \<and> snd (handleRefresh getAccounts None s) = []
   \<and> render toLowerCase add None initial_state = LoadingView
   \<and> render toLowerCase add None initial_state \<noteq> SelectCompanyView"
proof -
  have m: "pending (mount None t initial_state) = []"
    and l: "fetch_log (mount None t initial_state) = []"
    by (simp_all add: mount_def debounce_effect_def has_company_id_def)
  have "snd (handleRefresh getAccounts None s) = []"
    using snd_loadAccounts_None [of getAccounts "s\<lparr>refreshing := True\<rparr>"]
    by (simp add: handleRefresh_def case_prod_beta)
  moreover have "render toLowerCase add None initial_state = LoadingView"
    by (simp add: render_def initial_state_def)
  moreover have "company_effect getAccounts None initial_state = (initial_state, [])"
    by (simp add: company_effect_def has_company_id_def)
  ultimately show ?thesis
    using no_company_run_changes [OF m, of getAccounts cs] l by simp
qed

section \<open>A scenario\<close>

text \<open>
  An active Bank account and an inactive Fixed Asset account, inactive accounts hidden:
  the Bank account alone is shown, and the statistics still count both.
\<close>

lemma scenario_inactive_asset:
  "filteredAccounts toLowerCase (loaded [bank_account, fixed_asset_account]) = [bank_account]
   \<and> totalAssets (accountStats add (loaded [bank_account, fixed_asset_account])) = Num 500
   \<and> totalAccounts (accountStats add (loaded [bank_account, fixed_asset_account])) = 2"
  by (simp add: loaded_def initial_state_def bank_account_def fixed_asset_account_def
        filteredAccounts_def matchesSearch_def matchesType_def matchesActive_def
        accountStats_def reduce_balance_sum spec_amount_def spec_sum_def)

end
